theory Spec2Isabelle
  imports Complex_Main "HOL-Library.Word"
begin

unbundle bit_operations_syntax

section \<open>Shared data: src/types/sentiment.ts\<close>

text \<open>
  JavaScript numbers are modelled as \<^typ>\<open>real\<close>; the only numeric literal the
  sentiment code produces itself is \<open>0.5\<close>, which a double holds exactly. Strings are
  \<^typ>\<open>string\<close>, one list element per code unit, so that \<^const>\<open>length\<close> is the
  \<open>.length\<close> of the source.
\<close>

datatype SentimentLabel = Positive | Neutral | Negative

text \<open>The field \<open>keywords\<close> of the source is \<open>keyword_list\<close> here (the former is a reserved word).\<close>

record SentimentData =
  sentiment_score :: real
  sentiment_label :: SentimentLabel
  mood :: string
  keyword_list :: "string list"

record TranscriptEntry =
  entry_text :: string
  timestamp :: nat
  isFinal :: bool

text \<open>
  A call that may throw returns \<open>Return v\<close> or \<open>Throw\<close>; an \<open>async\<close> function's
  rejected promise is \<open>Throw\<close> as well.
\<close>

datatype 'a js_result = Return 'a | Throw

subsection \<open>The keyword heuristic shared by the client hook and the edge function\<close>

text \<open>
  \<open>text.split(" ")\<close>: the pieces between single space characters. Two adjacent
  spaces give an empty piece, and the empty string gives one empty piece.
\<close>

fun split_space :: "string \<Rightarrow> string list" where
  "split_space [] = [[]]"
| "split_space (c # cs) =
     (if c = CHR '' '' then [] # split_space cs
      else (case split_space cs of
              [] \<Rightarrow> [[c]]
            | w # ws \<Rightarrow> (c # w) # ws))"

text \<open>\<open>text.split(" ").filter(w => w.length > 4).slice(0, 3)\<close>\<close>

definition long_words :: "string \<Rightarrow> string list" where
  "long_words txt = take 3 (filter (\<lambda>w. length w > 4) (split_space txt))"

section \<open>The client hook: src/hooks/useSentimentAnalysis.ts\<close>

text \<open>
  What \<open>supabase.functions.invoke\<close> does is an input of the model: the awaited call
  throws, or resolves to \<open>{ data, error }\<close> with \<open>error\<close> set, or resolves to
  \<open>data\<close> (which may be \<open>null\<close>).
\<close>

datatype invoke_outcome =
    InvokeThrows
  | InvokeError
  | InvokeData "SentimentData option"

record analysis_hook =
  isAnalyzing :: bool
  analysis_toasts :: "string list"

text \<open>The \<open>try\<close> block of \<open>analyzeSentiment\<close>: \<open>if (error) throw error\<close>, else
  \<open>return data\<close>.\<close>

definition invoke_body :: "invoke_outcome \<Rightarrow> SentimentData option js_result" where
  "invoke_body outcome =
     (case outcome of
        InvokeThrows \<Rightarrow> Throw
      | InvokeError \<Rightarrow> Throw
      | InvokeData d \<Rightarrow> Return d)"

definition client_fallback :: "string \<Rightarrow> SentimentData" where
  "client_fallback txt =
     \<lparr> sentiment_score = 0.5,
       sentiment_label = Neutral,
       mood = ''undetermined'',
       keyword_list = long_words txt \<rparr>"

text \<open>
  \<open>analyzeSentiment\<close>: \<open>setIsAnalyzing(true)\<close>, the \<open>try\<close> block, the
  \<open>catch\<close> that toasts and returns the fallback object, and the \<open>finally\<close> that
  resets the flag.
\<close>

definition analyzeSentiment ::
  "string \<Rightarrow> invoke_outcome \<Rightarrow> analysis_hook \<Rightarrow> SentimentData option js_result \<times> analysis_hook" where
  "analyzeSentiment txt outcome h =
     (let h1 = h\<lparr>isAnalyzing := True\<rparr> in
      case invoke_body outcome of
        Return d \<Rightarrow> (Return d, h1\<lparr>isAnalyzing := False\<rparr>)
      | Throw \<Rightarrow>
          (Return (Some (client_fallback txt)),
           h1\<lparr>analysis_toasts := analysis_toasts h1 @ [''Analysis Error''],
               isAnalyzing := False\<rparr>))"

section \<open>The transcript router: src/pages/Index.tsx\<close>

record index_state =
  transcripts :: "TranscriptEntry list"
  interimTranscript :: string
  sentimentScore :: real
  sentimentLabel :: SentimentLabel
  mood_state :: string
  keywords_state :: "string list"

definition initial_index :: index_state where
  "initial_index =
     \<lparr> transcripts = [], interimTranscript = [], sentimentScore = 0.5,
       sentimentLabel = Neutral, mood_state = ''neutral'', keywords_state = [] \<rparr>"

text \<open>
  The updater passed to \<open>setKeywords\<close>:
  \<open>[...prev, ...result.keywords.filter((kw) => !prev.includes(kw))]\<close>.
\<close>

definition mergeKeywords :: "string list \<Rightarrow> string list \<Rightarrow> string list" where
  "mergeKeywords prev ks = prev @ filter (\<lambda>kw. kw \<notin> set prev) ks"

text \<open>
  \<open>handleTranscript\<close> is an \<open>async\<close> function with one \<open>await\<close>. Its first part
  runs when the event arrives and ends by calling \<open>analyzeSentiment\<close>; the list
  returned beside the state holds the argument of every such call. Its second part runs
  when that call has settled.
\<close>

definition handleTranscript_begin ::
  "TranscriptEntry \<Rightarrow> index_state \<Rightarrow> index_state \<times> string list" where
  "handleTranscript_begin t st =
     (if isFinal t
      then (st\<lparr>transcripts := transcripts st @ [t], interimTranscript := []\<rparr>,
            [entry_text t])
      else (st\<lparr>interimTranscript := entry_text t\<rparr>, []))"

definition handleTranscript_resume ::
  "SentimentData option js_result \<Rightarrow> index_state \<Rightarrow> index_state" where
  "handleTranscript_resume settled st =
     (case settled of
        Throw \<Rightarrow> st
      | Return None \<Rightarrow> st
      | Return (Some r) \<Rightarrow>
          st\<lparr>sentimentScore := sentiment_score r,
             sentimentLabel := sentiment_label r,
             mood_state := mood r,
             keywords_state := mergeKeywords (keywords_state st) (keyword_list r)\<rparr>)"

section \<open>The audio capture hook: useDeepgram (second part of src/components/TranscriptDisplay.tsx)\<close>

subsection \<open>Browser objects and the hook's state\<close>

text \<open>
  The hook keeps React state (\<open>isConnected\<close>, \<open>isRecording\<close>, \<open>isSpeaking\<close>) and
  refs to browser objects. Browser objects are identified by numbers, and the browser's
  side of each is a component of the same record: a socket's \<open>readyState\<close>, the
  streams whose tracks are live, the audio contexts that are not closed, the audio nodes
  that are connected in a graph, the pending timeouts with the time each is due, the
  buffers handed to \<open>ws.send\<close>, and the toasts shown. A ref holding \<open>null\<close> is
  \<open>None\<close>. Identifiers start at 1, as timer handles do in a browser, so a handle
  stored in a ref is always truthy.
\<close>

datatype readyState = CONNECTING | OPEN | CLOSING | CLOSED

text \<open>
  The variables a closure reads are fixed when it is created. \<open>connect\<close> and
  \<open>startRecording\<close> belong to one render of the hook, and \<open>isSpeaking\<close> is a
  \<open>const\<close> of that render: the handlers \<open>connect\<close> installs on the socket, and the
  \<open>onaudioprocess\<close> handler that \<open>startRecording\<close> installs when the socket opens,
  read the \<open>isSpeaking\<close> of the render whose \<open>connect\<close> was called, whatever
  \<open>setIsSpeaking\<close> has stored since. Refs and the setters are the same in every
  render.
\<close>

record socket_closure =
  closure_stream :: nat
  render_isSpeaking :: bool

record audio_closure =
  closure_ws :: nat
  closure_isSpeaking :: bool

record deepgram =
  isConnected :: bool
  isRecording :: bool
  isSpeaking :: bool
  wsRef :: "nat option"
  audioContextRef :: "nat option"
  processorRef :: "nat option"
  sourceRef :: "nat option"
  streamRef :: "nat option"
  silenceTimeoutRef :: "nat option"
  next_id :: nat
  socket_state :: "nat \<rightharpoonup> readyState"
  socket_handlers :: "nat \<rightharpoonup> socket_closure"
  live_streams :: "nat set"
  open_contexts :: "nat set"
  connected_nodes :: "nat set"
  onaudioprocess :: "nat \<rightharpoonup> audio_closure"
  timers :: "(nat \<times> nat) list"
  clock :: nat
  sent :: "(nat \<times> 8 word list) list"
  toasts :: "string list"

definition initial_deepgram :: deepgram where
  "initial_deepgram =
     \<lparr> isConnected = False, isRecording = False, isSpeaking = False,
       wsRef = None, audioContextRef = None, processorRef = None, sourceRef = None,
       streamRef = None, silenceTimeoutRef = None,
       next_id = 1, socket_state = Map.empty, socket_handlers = Map.empty,
       live_streams = {}, open_contexts = {}, connected_nodes = {},
       onaudioprocess = Map.empty, timers = [], clock = 0, sent = [], toasts = [] \<rparr>"

text \<open>
  \<open>SPEECH_THRESHOLD\<close> is the double that the literal \<open>0.01\<close> denotes,
  \<open>5764607523034235 / 2^59\<close>, a little above one hundredth.
\<close>

definition SPEECH_THRESHOLD :: real where
  "SPEECH_THRESHOLD = 5764607523034235 / 576460752303423488"

definition SILENCE_DURATION :: nat where
  "SILENCE_DURATION = 800"

definition toast :: "string \<Rightarrow> deepgram \<Rightarrow> deepgram" where
  "toast title st = st\<lparr>toasts := toasts st @ [title]\<rparr>"

subsection \<open>Timers\<close>

definition setTimeout :: "nat \<Rightarrow> deepgram \<Rightarrow> nat \<times> deepgram" where
  "setTimeout delay st =
     (next_id st,
      st\<lparr>next_id := Suc (next_id st),
         timers := timers st @ [(next_id st, clock st + delay)]\<rparr>)"

definition clearTimeout :: "nat \<Rightarrow> deepgram \<Rightarrow> deepgram" where
  "clearTimeout h st = st\<lparr>timers := filter (\<lambda>(h', due). h' \<noteq> h) (timers st)\<rparr>"

text \<open>The callback given to \<open>setTimeout\<close>:
  \<open>setIsSpeaking(false); silenceTimeoutRef.current = null\<close>.\<close>

definition silence_callback :: "deepgram \<Rightarrow> deepgram" where
  "silence_callback st = st\<lparr>isSpeaking := False, silenceTimeoutRef := None\<rparr>"

subsection \<open>Voice activity detection and PCM conversion\<close>

text \<open>
  JavaScript numbers are IEEE 754 doubles. A finite double is an integer of magnitude
  below \<open>2^53\<close> times a power of two that is at least \<open>2^-1074\<close>; every
  arithmetic operation returns the exact result rounded to the nearest double, a tie
  going to the one whose integer is even. \<open>double\<close> is that rounding: the spacing of
  the doubles around \<open>x\<close> is \<open>2\<close> to the power \<open>ulp_exponent x\<close>. Samples are
  finite numbers, and infinities and \<open>NaN\<close> are not modelled: a frame holds 32-bit
  floats, whose squares are below \<open>2^256\<close>, so the sum over a frame cannot overflow;
  and a frame with a \<open>NaN\<close> sample has the RMS \<open>NaN\<close>, which is not above the
  threshold, so such a frame is never sent.
\<close>

definition round_half_even :: "real \<Rightarrow> int" where
  "round_half_even y =
     (let f = \<lfloor>y\<rfloor>
      in if y - of_int f < 1 / 2 then f
         else if 1 / 2 < y - of_int f then f + 1
         else if even f then f else f + 1)"

definition ulp_exponent :: "real \<Rightarrow> int" where
  "ulp_exponent x = max \<lfloor>log 2 \<bar>x\<bar>\<rfloor> (- 1022) - 52"

definition double :: "real \<Rightarrow> real" where
  "double x =
     (if x = 0 then 0
      else of_int (round_half_even (x / 2 powi ulp_exponent x)) * 2 powi ulp_exponent x)"

text \<open>
  The sum of squares is the source's loop, from index 0 upwards, with the product and
  the sum rounded as the source's \<open>sum += inputData[i] * inputData[i]\<close> rounds them.
  \<open>rms\<close> is \<open>Math.sqrt(sum / inputData.length)\<close>: the quotient is rounded, and
  \<open>Math.sqrt\<close> is the correctly rounded square root, as the engines implement it.
  For an empty frame the source divides 0 by 0 and gets \<open>NaN\<close>, which is not above the
  threshold; HOL's \<open>0 / 0 = 0\<close> is not above it either.
\<close>

definition sum_squares :: "real list \<Rightarrow> real" where
  "sum_squares inputData = foldl (\<lambda>sum x. double (sum + double (x * x))) 0 inputData"

definition rms :: "real list \<Rightarrow> real" where
  "rms inputData = double (sqrt (double (sum_squares inputData / real (length inputData))))"

text \<open>
  Storing a number in an \<open>Int16Array\<close> truncates it towards zero and keeps the low
  16 bits. The array's buffer holds two bytes per element, low byte first.
\<close>

definition js_trunc :: "real \<Rightarrow> int" where
  "js_trunc x = (if x < 0 then \<lceil>x\<rceil> else \<lfloor>x\<rfloor>)"

definition to_int16 :: "real \<Rightarrow> 16 word" where
  "to_int16 x = word_of_int (js_trunc x)"

text \<open>\<open>const s = Math.max(-1, Math.min(1, x)); pcmData[i] = s < 0 ? s * 0x8000 : s * 0x7fff\<close>\<close>

definition scale_sample :: "real \<Rightarrow> real" where
  "scale_sample x =
     (let s = max (- 1) (min 1 x) in if s < 0 then s * 32768 else s * 32767)"

definition float_to_pcm :: "real \<Rightarrow> 16 word" where
  "float_to_pcm x = to_int16 (scale_sample x)"

definition pcm_bytes :: "16 word \<Rightarrow> 8 word list" where
  "pcm_bytes w = [ucast w, ucast (drop_bit 8 w)]"

definition buffer_of :: "16 word list \<Rightarrow> 8 word list" where
  "buffer_of pcmData = concat (map pcm_bytes pcmData)"

definition ws_send :: "nat \<Rightarrow> 8 word list \<Rightarrow> deepgram \<Rightarrow> deepgram" where
  "ws_send ws buf st = st\<lparr>sent := sent st @ [(ws, buf)]\<rparr>"

text \<open>
  The \<open>onaudioprocess\<close> handler. \<open>cl\<close> is its closure: the socket passed to
  \<open>startRecording\<close> and the \<open>isSpeaking\<close> of the render it was created in.
  \<open>vad_branch\<close> is the statement \<open>if (isSpeechDetected) ... else ...\<close>, given the
  value the handler's comparison produced; \<open>audioprocess\<close> is the whole handler.
\<close>

definition vad_branch ::
  "bool \<Rightarrow> audio_closure \<Rightarrow> real list \<Rightarrow> deepgram \<Rightarrow> deepgram" where
  "vad_branch isSpeechDetected cl inputData st =
     (if isSpeechDetected then
        (let st1 = (case silenceTimeoutRef st of
                      None \<Rightarrow> st
                    | Some h \<Rightarrow> (clearTimeout h st)\<lparr>silenceTimeoutRef := None\<rparr>);
             st2 = st1\<lparr>isSpeaking := True\<rparr>;
             pcmData = map float_to_pcm inputData
         in ws_send (closure_ws cl) (buffer_of pcmData) st2)
      else
        (if silenceTimeoutRef st = None \<and> closure_isSpeaking cl then
           (case setTimeout SILENCE_DURATION st of
              (h, st1) \<Rightarrow> st1\<lparr>silenceTimeoutRef := Some h\<rparr>)
         else st))"

definition audioprocess :: "audio_closure \<Rightarrow> real list \<Rightarrow> deepgram \<Rightarrow> deepgram" where
  "audioprocess cl inputData st =
     (if socket_state st (closure_ws cl) = Some OPEN then
        (let isSpeechDetected = (rms inputData > SPEECH_THRESHOLD)
         in vad_branch isSpeechDetected cl inputData st)
      else st)"

subsection \<open>startRecording, disconnect and connect\<close>

definition startRecording :: "nat \<Rightarrow> nat \<Rightarrow> bool \<Rightarrow> deepgram \<Rightarrow> deepgram" where
  "startRecording stream ws render_speaking st =
     (let audioContext = next_id st;
          source = Suc audioContext;
          processor = Suc source
      in st\<lparr>next_id := Suc processor,
            open_contexts := insert audioContext (open_contexts st),
            audioContextRef := Some audioContext,
            sourceRef := Some source,
            processorRef := Some processor,
            onaudioprocess := (onaudioprocess st)
              (processor \<mapsto> \<lparr>closure_ws = ws, closure_isSpeaking = render_speaking\<rparr>),
            connected_nodes := insert processor (insert source (connected_nodes st)),
            isRecording := True\<rparr>)"

text \<open>The six guarded blocks of \<open>disconnect\<close>, one definition each, in the source's
  order, and the three setters that end it.\<close>

definition release_timer :: "deepgram \<Rightarrow> deepgram" where
  "release_timer st =
     (case silenceTimeoutRef st of
        None \<Rightarrow> st
      | Some h \<Rightarrow> (clearTimeout h st)\<lparr>silenceTimeoutRef := None\<rparr>)"

definition release_processor :: "deepgram \<Rightarrow> deepgram" where
  "release_processor st =
     (case processorRef st of
        None \<Rightarrow> st
      | Some p \<Rightarrow> st\<lparr>connected_nodes := connected_nodes st - {p}, processorRef := None\<rparr>)"

definition release_source :: "deepgram \<Rightarrow> deepgram" where
  "release_source st =
     (case sourceRef st of
        None \<Rightarrow> st
      | Some s \<Rightarrow> st\<lparr>connected_nodes := connected_nodes st - {s}, sourceRef := None\<rparr>)"

definition release_context :: "deepgram \<Rightarrow> deepgram" where
  "release_context st =
     (case audioContextRef st of
        None \<Rightarrow> st
      | Some c \<Rightarrow> st\<lparr>open_contexts := open_contexts st - {c}, audioContextRef := None\<rparr>)"

definition release_stream :: "deepgram \<Rightarrow> deepgram" where
  "release_stream st =
     (case streamRef st of
        None \<Rightarrow> st
      | Some s \<Rightarrow> st\<lparr>live_streams := live_streams st - {s}, streamRef := None\<rparr>)"

text \<open>\<open>ws.close()\<close> moves a socket that is connecting or open to \<open>CLOSING\<close> and
  does nothing to one that is closing or closed.\<close>

definition ws_close :: "nat \<Rightarrow> deepgram \<Rightarrow> deepgram" where
  "ws_close ws st =
     (if socket_state st ws = Some CONNECTING \<or> socket_state st ws = Some OPEN
      then st\<lparr>socket_state := (socket_state st)(ws \<mapsto> CLOSING)\<rparr>
      else st)"

definition release_socket :: "deepgram \<Rightarrow> deepgram" where
  "release_socket st =
     (case wsRef st of
        None \<Rightarrow> st
      | Some ws \<Rightarrow> (ws_close ws st)\<lparr>wsRef := None\<rparr>)"

definition disconnect :: "deepgram \<Rightarrow> deepgram" where
  "disconnect st =
     (let st1 = release_timer st;
          st2 = release_processor st1;
          st3 = release_source st2;
          st4 = release_context st3;
          st5 = release_stream st4;
          st6 = release_socket st5
      in st6\<lparr>isConnected := False, isRecording := False, isSpeaking := False\<rparr>)"

text \<open>
  \<open>new WebSocket(url, ["token", DEEPGRAM_API_KEY])\<close> throws a \<open>SyntaxError\<close> when
  the list of subprotocols has a repeated element or an element that is not a token of
  the WebSocket handshake (a non-empty string of printable ASCII characters other than
  the separators).
\<close>

definition token_char :: "char \<Rightarrow> bool" where
  "token_char c =
     (let n = (of_char c :: nat)
      in 32 < n \<and> n < 127
         \<and> n \<notin> set [34, 40, 41, 44, 47, 58, 59, 60, 61, 62, 63, 64, 91, 92, 93, 123, 125])"

definition valid_protocols :: "string list \<Rightarrow> bool" where
  "valid_protocols ps = (distinct ps \<and> list_all (\<lambda>p. p \<noteq> [] \<and> list_all token_char p) ps)"

text \<open>What \<open>getUserMedia\<close> does is an input: it resolves to a stream or rejects.\<close>

datatype media_outcome = MediaGranted | MediaRejected

text \<open>
  The \<open>try\<close> block of \<open>connect\<close>. The key is \<open>None\<close> when the environment variable
  is undefined; an empty string is falsy as well.
\<close>

definition connect_try ::
  "string option \<Rightarrow> media_outcome \<Rightarrow> deepgram \<Rightarrow> unit js_result \<times> deepgram" where
  "connect_try DEEPGRAM_API_KEY media st =
     (case DEEPGRAM_API_KEY of
        None \<Rightarrow> (Throw, toast ''Configuration Error'' st)
      | Some k \<Rightarrow>
          if k = [] then (Throw, toast ''Configuration Error'' st)
          else (case media of
                  MediaRejected \<Rightarrow> (Throw, st)
                | MediaGranted \<Rightarrow>
                    (let stream = next_id st;
                         st1 = st\<lparr>next_id := Suc stream,
                                  live_streams := insert stream (live_streams st),
                                  streamRef := Some stream\<rparr>
                     in if \<not> valid_protocols [''token'', k] then (Throw, st1)
                        else
                          (let ws = next_id st1;
                               st2 = st1\<lparr>next_id := Suc ws,
                                        socket_state := (socket_state st1)(ws \<mapsto> CONNECTING),
                                        socket_handlers := (socket_handlers st1)
                                          (ws \<mapsto> \<lparr>closure_stream = stream,
                                                  render_isSpeaking = isSpeaking st1\<rparr>),
                                        wsRef := Some ws\<rparr>
                           in (Return (), st2)))))"

text \<open>\<open>connect\<close>: the \<open>try\<close> block, and the \<open>catch\<close> that toasts and rethrows.\<close>

definition connect ::
  "string option \<Rightarrow> media_outcome \<Rightarrow> deepgram \<Rightarrow> unit js_result \<times> deepgram" where
  "connect DEEPGRAM_API_KEY media st =
     (case connect_try DEEPGRAM_API_KEY media st of
        (Return u, st') \<Rightarrow> (Return u, st')
      | (Throw, st') \<Rightarrow> (Throw, toast ''Microphone Error'' st'))"

subsection \<open>The handlers installed on the socket, and the browser's events\<close>

definition ws_onopen :: "nat \<Rightarrow> deepgram \<Rightarrow> deepgram" where
  "ws_onopen ws st =
     (case socket_handlers st ws of
        None \<Rightarrow> st
      | Some cl \<Rightarrow>
          startRecording (closure_stream cl) ws (render_isSpeaking cl)
            (st\<lparr>isConnected := True\<rparr>))"

definition ws_onerror :: "nat \<Rightarrow> deepgram \<Rightarrow> deepgram" where
  "ws_onerror ws st =
     (case socket_handlers st ws of
        None \<Rightarrow> st
      | Some cl \<Rightarrow> disconnect (toast ''Connection Error'' st))"

definition ws_onclose :: "nat \<Rightarrow> deepgram \<Rightarrow> deepgram" where
  "ws_onclose ws st =
     (case socket_handlers st ws of
        None \<Rightarrow> st
      | Some cl \<Rightarrow> st\<lparr>isConnected := False, isRecording := False\<rparr>)"

text \<open>
  What the browser does between calls of the hook's functions: a socket opens; a socket
  fails (its \<open>readyState\<close> becomes \<open>CLOSED\<close>, then \<open>error\<close> and \<open>close\<close>
  are fired); a socket is closed (\<open>close\<close> alone); a connected
  processor node delivers a frame; time passes and the timeouts that are due fire.
\<close>

datatype event =
    SocketOpens nat
  | SocketFails nat
  | SocketCloses nat
  | AudioFrame nat "real list"
  | Elapse nat

definition set_readyState :: "nat \<Rightarrow> readyState \<Rightarrow> deepgram \<Rightarrow> deepgram" where
  "set_readyState ws r st = st\<lparr>socket_state := (socket_state st)(ws \<mapsto> r)\<rparr>"

definition fire_timers :: "deepgram \<Rightarrow> deepgram" where
  "fire_timers st =
     (let due = filter (\<lambda>(h, d). d \<le> clock st) (timers st);
          st1 = st\<lparr>timers := filter (\<lambda>(h, d). \<not> d \<le> clock st) (timers st)\<rparr>
      in fold (\<lambda>t. silence_callback) due st1)"

fun step :: "event \<Rightarrow> deepgram \<Rightarrow> deepgram" where
  "step (SocketOpens ws) st =
     (if socket_state st ws = Some CONNECTING
      then ws_onopen ws (set_readyState ws OPEN st) else st)"
| "step (SocketFails ws) st =
     (if socket_state st ws = None \<or> socket_state st ws = Some CLOSED then st
      else ws_onclose ws (ws_onerror ws (set_readyState ws CLOSED st)))"
| "step (SocketCloses ws) st =
     (if socket_state st ws = None \<or> socket_state st ws = Some CLOSED then st
      else ws_onclose ws (set_readyState ws CLOSED st))"
| "step (AudioFrame p inputData) st =
     (if p \<in> connected_nodes st
      then (case onaudioprocess st p of
              None \<Rightarrow> st
            | Some cl \<Rightarrow> audioprocess cl inputData st)
      else st)"
| "step (Elapse ms) st = fire_timers (st\<lparr>clock := clock st + ms\<rparr>)"

definition run :: "event list \<Rightarrow> deepgram \<Rightarrow> deepgram" where
  "run evs st = fold step evs st"

subsection \<open>States and scenarios used to state the properties\<close>

text \<open>The idle state of the hook: the three flags are false and every ref is \<open>null\<close>.\<close>

definition idle :: "deepgram \<Rightarrow> bool" where
  "idle st =
     (\<not> isConnected st \<and> \<not> isRecording st \<and> \<not> isSpeaking st
      \<and> silenceTimeoutRef st = None \<and> processorRef st = None \<and> sourceRef st = None
      \<and> audioContextRef st = None \<and> streamRef st = None \<and> wsRef st = None)"

definition timer_pending :: "deepgram \<Rightarrow> nat \<Rightarrow> bool" where
  "timer_pending st h = (h \<in> fst ` set (timers st))"

definition socket_active :: "deepgram \<Rightarrow> nat \<Rightarrow> bool" where
  "socket_active st ws =
     (socket_state st ws = Some CONNECTING \<or> socket_state st ws = Some OPEN)"

text \<open>
  A session as the page starts one: from the initial state, \<open>connect\<close> with a key and
  a granted microphone (stream 1, socket 2), then the socket opens and
  \<open>startRecording\<close> builds the audio graph (context 3, source 4, processor 5).
\<close>

definition connecting_session :: deepgram where
  "connecting_session = snd (connect (Some ''abc123'') MediaGranted initial_deepgram)"

definition connected_session :: deepgram where
  "connected_session = step (SocketOpens 2) connecting_session"

text \<open>The same session after the remote side has closed the socket: \<open>onclose\<close> resets
  two flags and leaves the audio graph in place, so frames keep arriving.\<close>

definition closed_session :: deepgram where
  "closed_session = step (SocketCloses 2) connected_session"

text \<open>
  Two frames of 32-bit floats at the threshold. The mean square of \<open>frameA\<close> is above
  \<open>1/10000\<close>, yet the handler's arithmetic gives an RMS equal to the threshold, which
  is not above it. The mean square of \<open>frameB\<close> is below \<open>1/10000\<close>, yet the
  handler's arithmetic gives an RMS two doubles above the threshold.
\<close>

definition frameA :: "real list" where
  "frameA = [11115371 / 1073741824, 7455283 / 536870912, 1410085 / 2199023255552]"

definition frameB :: "real list" where
  "frameB =
     [8588865 / 536870912,
      8892013 / 536870912,
      8890287 / 536870912,
      264935 / 16777216,
      132895 / 8388608,
      8805933 / 536870912,
      13923573 / 8589934592,
      16123419 / 8589934592,
      10278587 / 8589934592,
      12631883 / 8589934592,
      11451581 / 8589934592,
      14229237 / 8589934592,
      14979659 / 8589934592,
      14688795 / 8589934592,
      15346403 / 8589934592,
      14169635 / 8589934592]"

text \<open>The frames and the passage of time, as opposed to what happens to the socket.\<close>

fun audio_event :: "event \<Rightarrow> bool" where
  "audio_event (AudioFrame p inputData) = True"
| "audio_event (Elapse ms) = True"
| "audio_event (SocketOpens ws) = False"
| "audio_event (SocketFails ws) = False"
| "audio_event (SocketCloses ws) = False"

section \<open>The edge function: analyze-sentiment (second part of src/unnamed/part_001)\<close>

text \<open>
  The request's \<open>body.text\<close> is a string or some other value. Reading the body can
  fail (\<open>req.json()\<close> rejects, or the body is \<open>null\<close>); then the variable \<open>text\<close>
  keeps its initial value, the empty string.
\<close>

datatype js_text = JString string | JNonString

datatype request_body = BodyUnreadable | BodyText js_text

record request =
  http_method :: string
  body :: request_body

text \<open>
  What the gateway does is an input: \<open>fetch\<close> rejects, or a response arrives with a
  status and a body. The function reads the body once: of a response that is not ok,
  as text (\<open>await response.text()\<close>, which resolves or rejects); of one that is ok, as
  JSON (\<open>await response.json()\<close>, which rejects or yields a value). Of the JSON it
  reads \<open>data.choices?.[0]?.message?.tool_calls?.[0]\<close>: reading it throws (the value
  is \<open>null\<close>; this is \<open>JsonUnreadable\<close> too), or it is absent, or it has no usable
  \<open>function\<close> member (reading its \<open>name\<close> throws), or it has a name and an
  \<open>arguments\<close> string that \<open>JSON.parse\<close> accepts or rejects.
\<close>

datatype body_text = TextUnreadable | TextRead string

datatype llm_arguments = Unparseable | Parsed string

datatype tool_call = NoToolCall | BrokenToolCall | ToolCall string llm_arguments

datatype gateway_payload = JsonUnreadable | Json tool_call

datatype gateway_outcome = FetchRejects | GatewayResponse nat body_text gateway_payload

datatype response_body =
    EmptyBody
  | FallbackBody "string option" SentimentData
  | ResultBody string

record response =
  status :: nat
  response_body :: response_body

definition response_ok :: "nat \<Rightarrow> bool" where
  "response_ok st = (200 \<le> st \<and> st \<le> 299)"

definition neutral_data :: "string list \<Rightarrow> SentimentData" where
  "neutral_data kws =
     \<lparr> sentiment_score = 0.5, sentiment_label = Neutral,
       mood = ''undetermined'', keyword_list = kws \<rparr>"

text \<open>The \<open>try\<close> block either returns a response or throws; what it throws does not
  matter to the \<open>catch\<close>, the value of \<open>text\<close> at that moment does.\<close>

datatype attempt = Respond response | Raise js_text

definition serve_try :: "request_body \<Rightarrow> string option \<Rightarrow> gateway_outcome \<Rightarrow> attempt" where
  "serve_try b LOVABLE_API_KEY gateway =
     (case b of
        BodyUnreadable \<Rightarrow> Raise (JString [])
      | BodyText txt \<Rightarrow>
          (case txt of
             JNonString \<Rightarrow> Raise txt
           | JString s \<Rightarrow>
               if s = [] then Raise txt
               else if LOVABLE_API_KEY = None \<or> LOVABLE_API_KEY = Some [] then Raise txt
               else
                 (case gateway of
                    FetchRejects \<Rightarrow> Raise txt
                  | GatewayResponse st errorText payload \<Rightarrow>
                      if \<not> response_ok st then
                        (case errorText of
                           TextUnreadable \<Rightarrow> Raise txt
                         | TextRead details \<Rightarrow>
                             if st = 429 then
                               Respond \<lparr> status = 429,
                                 response_body = FallbackBody
                                   (Some ''Rate limit exceeded. Please try again in a moment.'')
                                   (neutral_data (long_words s)) \<rparr>
                             else if st = 402 then
                               Respond \<lparr> status = 402,
                                 response_body = FallbackBody
                                   (Some ''AI credits exhausted. Please add credits to continue.'')
                                   (neutral_data (long_words s)) \<rparr>
                             else Raise txt)
                      else
                        (case payload of
                           JsonUnreadable \<Rightarrow> Raise txt
                         | Json NoToolCall \<Rightarrow> Raise txt
                         | Json BrokenToolCall \<Rightarrow> Raise txt
                         | Json (ToolCall name args) \<Rightarrow>
                             if name \<noteq> ''analyze_sentiment'' then Raise txt
                             else (case args of
                                     Unparseable \<Rightarrow> Raise txt
                                   | Parsed result \<Rightarrow>
                                       Respond \<lparr> status = 200,
                                         response_body = ResultBody result \<rparr>)))))"

text \<open>The keywords the \<open>catch\<close> block computes from \<open>text\<close>.\<close>

definition fallbackKeywords :: "js_text \<Rightarrow> string list" where
  "fallbackKeywords txt =
     (case txt of
        JNonString \<Rightarrow> [''analysis'', ''error'']
      | JString s \<Rightarrow>
          if s = [] then [''analysis'', ''error'']
          else (let words = long_words s
                in if length words > 0 then words else [''analysis'', ''error'']))"

definition serve :: "request \<Rightarrow> string option \<Rightarrow> gateway_outcome \<Rightarrow> response" where
  "serve req LOVABLE_API_KEY gateway =
     (if http_method req = ''OPTIONS'' then \<lparr> status = 200, response_body = EmptyBody \<rparr>
      else (case serve_try (body req) LOVABLE_API_KEY gateway of
              Respond r \<Rightarrow> r
            | Raise txt \<Rightarrow>
                \<lparr> status = 200,
                  response_body = FallbackBody None (neutral_data (fallbackKeywords txt)) \<rparr>))"

text \<open>
  The expected error classes of the upstream call, read off the gateway's reply, and
  whether the text of an error reply could be read.
\<close>

definition rate_limited :: "gateway_outcome \<Rightarrow> bool" where
  "rate_limited g =
     (case g of GatewayResponse st t p \<Rightarrow> st = 429 | FetchRejects \<Rightarrow> False)"

definition quota_exhausted :: "gateway_outcome \<Rightarrow> bool" where
  "quota_exhausted g =
     (case g of GatewayResponse st t p \<Rightarrow> st = 402 | FetchRejects \<Rightarrow> False)"

definition error_text_read :: "gateway_outcome \<Rightarrow> bool" where
  "error_text_read g =
     (case g of
        GatewayResponse st t p \<Rightarrow> (case t of TextUnreadable \<Rightarrow> False | TextRead details \<Rightarrow> True)
      | FetchRejects \<Rightarrow> False)"

definition malformed_output :: "gateway_outcome \<Rightarrow> bool" where
  "malformed_output g =
     (case g of
        FetchRejects \<Rightarrow> False
      | GatewayResponse st t p \<Rightarrow>
          response_ok st \<and>
          (case p of
             JsonUnreadable \<Rightarrow> True
           | Json NoToolCall \<Rightarrow> True
           | Json BrokenToolCall \<Rightarrow> True
           | Json (ToolCall name Unparseable) \<Rightarrow> True
           | Json (ToolCall name (Parsed result)) \<Rightarrow> name \<noteq> ''analyze_sentiment''))"

section \<open>Theorems\<close>

subsection \<open>The keyword heuristic\<close>

text \<open>
  \<open>split_space\<close> is JavaScript's \<open>split(" ")\<close>: one more piece than there are
  spaces, and no piece holds a space. Other whitespace does not separate.
\<close>

lemma split_space_nonempty: "split_space s \<noteq> []"
  by (induction s) (auto split: list.split)

lemma split_space_length: "length (split_space s) = Suc (count_list s (CHR '' ''))"
  by (induction s) (auto split: list.split simp: split_space_nonempty)

lemma split_space_no_space: "w \<in> set (split_space s) \<Longrightarrow> CHR '' '' \<notin> set w"
  by (induction s arbitrary: w) (auto split: list.splits if_splits)

lemma long_words_sound:
  "w \<in> set (long_words s) \<Longrightarrow> w \<in> set (split_space s) \<and> 4 < length w"
  by (auto simp: long_words_def dest: in_set_takeD)

lemma long_words_tab:
  "long_words (''hello'' @ [CHR 0x09] @ ''world'') = [''hello'' @ [CHR 0x09] @ ''world'']"
  by (simp add: long_words_def)

lemma long_words_hi: "long_words ''hi'' = []"
  by (simp add: long_words_def)

lemma long_words_hello: "long_words ''hello world'' = [''hello'', ''world'']"
  by (simp add: long_words_def)

subsection \<open>The transcript router\<close>

text \<open>
  C4. For every transcript event with \<open>isFinal = true\<close>, the handler appends the
  event at the end of the transcript log (so the log grows by exactly one entry),
  sets the interim slot to the empty string, and issues exactly one
  sentiment-analysis call, whose argument is the text of that entry. The part of the
  handler that runs once the call has settled leaves the log and the interim slot
  alone.
\<close>

theorem final_transcript_routed:
  assumes "isFinal t"
  shows "transcripts (fst (handleTranscript_begin t st)) = transcripts st @ [t]
       \<and> length (transcripts (fst (handleTranscript_begin t st))) = Suc (length (transcripts st))
       \<and> interimTranscript (fst (handleTranscript_begin t st)) = []
       \<and> snd (handleTranscript_begin t st) = [entry_text t]
       \<and> transcripts (handleTranscript_resume r (fst (handleTranscript_begin t st)))
           = transcripts st @ [t]
       \<and> interimTranscript (handleTranscript_resume r (fst (handleTranscript_begin t st))) = []"
  using assms
  by (simp add: handleTranscript_begin_def handleTranscript_resume_def
           split: js_result.split option.split)

theorem final_transcript_routed_witness:
  "isFinal \<lparr>entry_text = ''I feel great'', timestamp = 7, isFinal = True\<rparr>
   \<and> transcripts (fst (handleTranscript_begin
         \<lparr>entry_text = ''I feel great'', timestamp = 7, isFinal = True\<rparr> initial_index))
       = [\<lparr>entry_text = ''I feel great'', timestamp = 7, isFinal = True\<rparr>]
   \<and> interimTranscript (fst (handleTranscript_begin
         \<lparr>entry_text = ''I feel great'', timestamp = 7, isFinal = True\<rparr> initial_index)) = []
   \<and> snd (handleTranscript_begin
         \<lparr>entry_text = ''I feel great'', timestamp = 7, isFinal = True\<rparr> initial_index)
       = [''I feel great'']"
  using final_transcript_routed
    [of "\<lparr>entry_text = ''I feel great'', timestamp = 7, isFinal = True\<rparr>" initial_index]
  by (simp add: initial_index_def)

text \<open>
  What the keyword updater does guarantee: applying the same result twice is the same
  as applying it once, the accumulator is kept as a prefix, a keyword that is present
  gains no further entry, and duplicates never arise from results that have none.
\<close>

lemma mergeKeywords_idem: "mergeKeywords (mergeKeywords acc ks) ks = mergeKeywords acc ks"
  by (simp add: mergeKeywords_def filter_empty_conv)

lemma mergeKeywords_keeps:
  "set acc \<subseteq> set (mergeKeywords acc ks) \<and> take (length acc) (mergeKeywords acc ks) = acc"
  by (simp add: mergeKeywords_def)

lemma mergeKeywords_present:
  "k \<in> set acc \<Longrightarrow> count_list (mergeKeywords acc ks) k = count_list acc k"
  by (simp add: mergeKeywords_def count_list_0_iff)

lemma mergeKeywords_distinct:
  "distinct acc \<Longrightarrow> distinct ks \<Longrightarrow> distinct (mergeKeywords acc ks)"
  by (auto simp add: mergeKeywords_def)

lemma mergeKeywords_two_transcripts:
  "k \<notin> set acc \<Longrightarrow> count_list (mergeKeywords (mergeKeywords acc [k]) [k]) k = 1"
  by (simp add: mergeKeywords_def)

text \<open>
  C8. The property: merging a keyword that is already present leaves one entry for
  that keyword, in every accumulator state the page can reach. The updater filters the
  incoming keywords against the accumulator only, not against each other, so a result
  that repeats a keyword puts it in twice. The hook's own fallback does that for the
  text \<open>really really happy\<close>: the accumulator becomes
  \<open>[really, really, happy]\<close>, and a later result with the keyword \<open>really\<close>, which
  is then already present, leaves two entries for it.
\<close>

theorem keyword_repeated_within_one_result:
  "keywords_state
     (handleTranscript_resume
        (fst (analyzeSentiment ''really really happy'' InvokeThrows
                \<lparr>isAnalyzing = False, analysis_toasts = []\<rparr>))
        initial_index)
     = [''really'', ''really'', ''happy'']
   \<and> keywords_state
       (handleTranscript_resume
          (Return (Some \<lparr> sentiment_score = 0.9, sentiment_label = Positive,
                           mood = ''happy'', keyword_list = [''really''] \<rparr>))
          (handleTranscript_resume
             (fst (analyzeSentiment ''really really happy'' InvokeThrows
                     \<lparr>isAnalyzing = False, analysis_toasts = []\<rparr>))
             initial_index))
     = [''really'', ''really'', ''happy'']"
  by (simp add: analyzeSentiment_def invoke_body_def client_fallback_def long_words_def
        handleTranscript_resume_def initial_index_def mergeKeywords_def)

subsection \<open>The client hook\<close>

text \<open>
  C7, as the claim states it, asks for a non-empty keyword list. For the text \<open>hi\<close>
  and a call that throws, \<open>analyzeSentiment\<close> returns the neutral result with an
  empty keyword list.
\<close>

theorem client_fallback_empty_keywords:
  "fst (analyzeSentiment ''hi'' InvokeThrows \<lparr>isAnalyzing = False, analysis_toasts = []\<rparr>)
     = Return (Some \<lparr> sentiment_score = 0.5, sentiment_label = Neutral,
                      mood = ''undetermined'', keyword_list = [] \<rparr>)"
  by (simp add: analyzeSentiment_def invoke_body_def client_fallback_def long_words_hi)

text \<open>
  C7, amended. For every input text, when the sentiment call fails (the call throws,
  or it resolves with an error, which the hook throws itself), \<open>analyzeSentiment\<close>
  returns and does not throw; the result has label \<open>neutral\<close>, score 0.5, mood
  \<open>undetermined\<close>, and as keywords the first three of the pieces of the text between
  single space characters that are longer than 4 characters: at most three, and none
  when the text has no such piece. The analyzing flag is reset.
\<close>

theorem analyzeSentiment_fallback:
  assumes "outcome = InvokeThrows \<or> outcome = InvokeError"
  shows "fst (analyzeSentiment txt outcome h)
           = Return (Some \<lparr> sentiment_score = 0.5, sentiment_label = Neutral,
               mood = ''undetermined'',
               keyword_list = take 3 (filter (\<lambda>w. length w > 4) (split_space txt)) \<rparr>)
       \<and> length (take 3 (filter (\<lambda>w. length w > 4) (split_space txt))) \<le> 3
       \<and> \<not> isAnalyzing (snd (analyzeSentiment txt outcome h))"
  using assms
  by (auto simp add: analyzeSentiment_def invoke_body_def client_fallback_def long_words_def)

theorem analyzeSentiment_fallback_witness:
  "fst (analyzeSentiment ''I feel really happy today'' InvokeThrows
          \<lparr>isAnalyzing = False, analysis_toasts = []\<rparr>)
     = Return (Some \<lparr> sentiment_score = 0.5, sentiment_label = Neutral,
                      mood = ''undetermined'',
                      keyword_list = [''really'', ''happy'', ''today''] \<rparr>)"
  using analyzeSentiment_fallback [of InvokeThrows "''I feel really happy today''"
          "\<lparr>isAnalyzing = False, analysis_toasts = []\<rparr>"]
  by simp

subsection \<open>The edge function\<close>

lemma fallbackKeywords_nonempty: "fallbackKeywords txt \<noteq> []"
  by (auto simp add: fallbackKeywords_def Let_def split: js_text.split)

text \<open>Every response carries one of three statuses.\<close>

lemma serve_status: "status (serve req key g) \<in> {200, 402, 429}"
  by (auto simp add: serve_def serve_try_def
      split: attempt.split request_body.split js_text.split gateway_outcome.split
        body_text.split gateway_payload.split tool_call.split llm_arguments.split)

text \<open>
  C1, as the claim states it, asks for status 200 in every expected error class. When
  the gateway answers 429, the function returns the fallback body with status 429.
\<close>

theorem serve_rate_limit_status:
  "status (serve \<lparr>http_method = ''POST'', body = BodyText (JString ''hello world'')\<rparr>
             (Some ''key'')
             (GatewayResponse 429 (TextRead ''Too Many Requests'') JsonUnreadable)) = 429"
  by (simp add: serve_def serve_try_def response_ok_def)

text \<open>
  C1, amended. For every request with a non-empty text (and the gateway key
  configured) whose upstream call fails in an expected error class, the response body
  has the fallback shape: score 0.5, label \<open>neutral\<close>, mood \<open>undetermined\<close> and a
  list of keywords. When the gateway reports a rate limit (429) or exhausted quota
  (402) and the text of its reply can be read, the body has an error field, the
  keywords are the long words of the text, and the response has the gateway's status,
  429 or 402, not 200. When the text of such a reply cannot be read, and when the
  gateway's output is malformed, the status is 200, there is no error field, and the
  keyword list is not empty.
\<close>

theorem serve_degrades:
  assumes "http_method req \<noteq> ''OPTIONS''" and "body req = BodyText (JString s)" and "s \<noteq> []"
    and "key = Some k" and "k \<noteq> []"
  shows "(rate_limited g \<and> error_text_read g \<longrightarrow>
            serve req key g =
              \<lparr> status = 429,
                response_body = FallbackBody
                  (Some ''Rate limit exceeded. Please try again in a moment.'')
                  \<lparr> sentiment_score = 0.5, sentiment_label = Neutral,
                    mood = ''undetermined'', keyword_list = long_words s \<rparr> \<rparr>)
       \<and> (quota_exhausted g \<and> error_text_read g \<longrightarrow>
            serve req key g =
              \<lparr> status = 402,
                response_body = FallbackBody
                  (Some ''AI credits exhausted. Please add credits to continue.'')
                  \<lparr> sentiment_score = 0.5, sentiment_label = Neutral,
                    mood = ''undetermined'', keyword_list = long_words s \<rparr> \<rparr>)
       \<and> ((rate_limited g \<or> quota_exhausted g) \<and> \<not> error_text_read g \<or> malformed_output g \<longrightarrow>
            serve req key g =
              \<lparr> status = 200,
                response_body = FallbackBody None
                  \<lparr> sentiment_score = 0.5, sentiment_label = Neutral,
                    mood = ''undetermined'', keyword_list = fallbackKeywords (JString s) \<rparr> \<rparr>
            \<and> fallbackKeywords (JString s) \<noteq> [])"
proof (intro conjI impI)
  assume "rate_limited g \<and> error_text_read g"
  then obtain details p where "g = GatewayResponse 429 (TextRead details) p"
    by (auto simp: rate_limited_def error_text_read_def
        split: gateway_outcome.splits body_text.splits)
  with assms show "serve req key g =
              \<lparr> status = 429,
                response_body = FallbackBody
                  (Some ''Rate limit exceeded. Please try again in a moment.'')
                  \<lparr> sentiment_score = 0.5, sentiment_label = Neutral,
                    mood = ''undetermined'', keyword_list = long_words s \<rparr> \<rparr>"
    by (simp add: serve_def serve_try_def response_ok_def neutral_data_def)
next
  assume "quota_exhausted g \<and> error_text_read g"
  then obtain details p where "g = GatewayResponse 402 (TextRead details) p"
    by (auto simp: quota_exhausted_def error_text_read_def
        split: gateway_outcome.splits body_text.splits)
  with assms show "serve req key g =
              \<lparr> status = 402,
                response_body = FallbackBody
                  (Some ''AI credits exhausted. Please add credits to continue.'')
                  \<lparr> sentiment_score = 0.5, sentiment_label = Neutral,
                    mood = ''undetermined'', keyword_list = long_words s \<rparr> \<rparr>"
    by (simp add: serve_def serve_try_def response_ok_def neutral_data_def)
next
  assume c: "(rate_limited g \<or> quota_exhausted g) \<and> \<not> error_text_read g \<or> malformed_output g"
  have "serve_try (body req) key g = Raise (JString s)"
  proof (cases "malformed_output g")
    case True
    then obtain st t p where g: "g = GatewayResponse st t p" and ok: "response_ok st"
      by (auto simp: malformed_output_def split: gateway_outcome.splits)
    from True g show ?thesis
      using assms ok
      by (auto simp: malformed_output_def serve_try_def
          split: gateway_payload.splits tool_call.splits llm_arguments.splits)
  next
    case False
    with c obtain st p where g: "g = GatewayResponse st TextUnreadable p"
      and st: "st = 429 \<or> st = 402"
      by (auto simp: rate_limited_def quota_exhausted_def error_text_read_def
          split: gateway_outcome.splits body_text.splits)
    from st have "\<not> response_ok st" by (auto simp: response_ok_def)
    with g show ?thesis
      using assms by (simp add: serve_try_def)
  qed
  with assms show "serve req key g =
              \<lparr> status = 200,
                response_body = FallbackBody None
                  \<lparr> sentiment_score = 0.5, sentiment_label = Neutral,
                    mood = ''undetermined'', keyword_list = fallbackKeywords (JString s) \<rparr> \<rparr>"
    by (simp add: serve_def neutral_data_def)
next
  show "fallbackKeywords (JString s) \<noteq> []" by (rule fallbackKeywords_nonempty)
qed

theorem serve_degrades_witness:
  "serve \<lparr>http_method = ''POST'', body = BodyText (JString ''hello world'')\<rparr> (Some ''key'')
       (GatewayResponse 429 (TextRead ''Too Many Requests'') JsonUnreadable)
     = \<lparr> status = 429,
         response_body = FallbackBody
           (Some ''Rate limit exceeded. Please try again in a moment.'')
           \<lparr> sentiment_score = 0.5, sentiment_label = Neutral,
             mood = ''undetermined'', keyword_list = [''hello'', ''world''] \<rparr> \<rparr>
   \<and> serve \<lparr>http_method = ''POST'', body = BodyText (JString ''hello world'')\<rparr> (Some ''key'')
       (GatewayResponse 402 (TextRead ''Payment Required'') JsonUnreadable)
     = \<lparr> status = 402,
         response_body = FallbackBody
           (Some ''AI credits exhausted. Please add credits to continue.'')
           \<lparr> sentiment_score = 0.5, sentiment_label = Neutral,
             mood = ''undetermined'', keyword_list = [''hello'', ''world''] \<rparr> \<rparr>
   \<and> serve \<lparr>http_method = ''POST'', body = BodyText (JString ''hello world'')\<rparr> (Some ''key'')
       (GatewayResponse 429 TextUnreadable JsonUnreadable)
     = \<lparr> status = 200,
         response_body = FallbackBody None
           \<lparr> sentiment_score = 0.5, sentiment_label = Neutral,
             mood = ''undetermined'', keyword_list = [''hello'', ''world''] \<rparr> \<rparr>
   \<and> serve \<lparr>http_method = ''POST'', body = BodyText (JString ''hi'')\<rparr> (Some ''key'')
       (GatewayResponse 200 (TextRead []) (Json (ToolCall ''analyze_sentiment'' Unparseable)))
     = \<lparr> status = 200,
         response_body = FallbackBody None
           \<lparr> sentiment_score = 0.5, sentiment_label = Neutral,
             mood = ''undetermined'', keyword_list = [''analysis'', ''error''] \<rparr> \<rparr>"
proof -
  have r: "rate_limited (GatewayResponse 429 (TextRead ''Too Many Requests'') JsonUnreadable)"
    "error_text_read (GatewayResponse 429 (TextRead ''Too Many Requests'') JsonUnreadable)"
    by (simp_all add: rate_limited_def error_text_read_def)
  have q: "quota_exhausted (GatewayResponse 402 (TextRead ''Payment Required'') JsonUnreadable)"
    "error_text_read (GatewayResponse 402 (TextRead ''Payment Required'') JsonUnreadable)"
    by (simp_all add: quota_exhausted_def error_text_read_def)
  have u: "rate_limited (GatewayResponse 429 TextUnreadable JsonUnreadable)"
    "\<not> error_text_read (GatewayResponse 429 TextUnreadable JsonUnreadable)"
    by (simp_all add: rate_limited_def error_text_read_def)
  have m: "malformed_output
             (GatewayResponse 200 (TextRead []) (Json (ToolCall ''analyze_sentiment'' Unparseable)))"
    by (simp add: malformed_output_def response_ok_def)
  have fk: "fallbackKeywords (JString ''hi'') = [''analysis'', ''error'']"
    "fallbackKeywords (JString ''hello world'') = [''hello'', ''world'']"
    by (simp_all add: fallbackKeywords_def long_words_hi long_words_hello)
  show ?thesis
    using r q u m
      serve_degrades [of "\<lparr>http_method = ''POST'', body = BodyText (JString ''hello world'')\<rparr>"
        "''hello world''" "Some ''key''" "''key''"
        "GatewayResponse 429 (TextRead ''Too Many Requests'') JsonUnreadable"]
      serve_degrades [of "\<lparr>http_method = ''POST'', body = BodyText (JString ''hello world'')\<rparr>"
        "''hello world''" "Some ''key''" "''key''"
        "GatewayResponse 402 (TextRead ''Payment Required'') JsonUnreadable"]
      serve_degrades [of "\<lparr>http_method = ''POST'', body = BodyText (JString ''hello world'')\<rparr>"
        "''hello world''" "Some ''key''" "''key''"
        "GatewayResponse 429 TextUnreadable JsonUnreadable"]
      serve_degrades [of "\<lparr>http_method = ''POST'', body = BodyText (JString ''hi'')\<rparr>"
        "''hi''" "Some ''key''" "''key''"
        "GatewayResponse 200 (TextRead []) (Json (ToolCall ''analyze_sentiment'' Unparseable))"]
    by (simp add: long_words_hello fk)
qed

subsection \<open>Double arithmetic\<close>

text \<open>
  \<open>double\<close> returns the double within half a spacing of its argument; in particular
  it leaves the small integers alone, and the threshold is what the literal
  \<open>0.01\<close> rounds to.
\<close>

lemma round_half_even_near:
  assumes "\<bar>y - of_int m\<bar> < 1 / 2"
  shows "round_half_even y = m"
proof (cases "of_int m \<le> y")
  case True
  with assms have "\<lfloor>y\<rfloor> = m" by (intro floor_unique) auto
  with assms True show ?thesis by (simp add: round_half_even_def)
next
  case False
  with assms have f: "\<lfloor>y\<rfloor> = m - 1" by (intro floor_unique) auto
  from assms False have "1 / 2 < y - of_int (m - 1)" by simp
  with f show ?thesis by (simp add: round_half_even_def Let_def)
qed

lemma ulp_exponent_eq:
  assumes "2 powi (k + 52) \<le> \<bar>x\<bar>" and "\<bar>x\<bar> < 2 powi (k + 53)" and "- 1074 \<le> k"
  shows "ulp_exponent x = k"
proof -
  have pos: "0 < \<bar>x\<bar>" using assms(1) by (smt (verit) zero_less_power_int)
  have a: "(2::real) powr real_of_int (k + 52) = 2 powi (k + 52)"
    by (rule powr_real_of_int') simp_all
  have b: "(2::real) powr real_of_int (k + 52 + 1) = 2 powi (k + 53)"
    using powr_real_of_int' [of "2::real" "k + 53"] by (simp add: add.assoc)
  have "(2::real) powr real_of_int (k + 52) \<le> \<bar>x\<bar> \<and> \<bar>x\<bar> < 2 powr (real_of_int (k + 52) + 1)"
    using assms(1,2) a b by simp
  with pos have "\<lfloor>log 2 \<bar>x\<bar>\<rfloor> = k + 52"
    using floor_log_eq_powr_iff [of "\<bar>x\<bar>" 2 "k + 52"] by simp
  with assms(3) show ?thesis by (simp add: ulp_exponent_def)
qed

lemma double_eqI:
  assumes "2 powi (k + 52) \<le> \<bar>x\<bar>" and "\<bar>x\<bar> < 2 powi (k + 53)" and "- 1074 \<le> k"
    and "\<bar>x - of_int m * 2 powi k\<bar> < 2 powi k / 2"
  shows "double x = of_int m * 2 powi k"
proof -
  have u: "ulp_exponent x = k" using assms(1-3) by (rule ulp_exponent_eq)
  have p: "(0::real) < 2 powi k" by simp
  have nz: "x \<noteq> 0" using assms(1) by (smt (verit) zero_less_power_int)
  have "\<bar>x / 2 powi k - of_int m\<bar> = \<bar>x - of_int m * 2 powi k\<bar> / 2 powi k"
    using p by (simp add: field_simps abs_divide)
  also have "\<dots> < 1 / 2"
    using assms(4) p by (simp add: field_simps)
  finally have "round_half_even (x / 2 powi k) = m" by (rule round_half_even_near)
  with u nz show ?thesis by (simp add: double_def)
qed

lemma double_0: "double 0 = 0" by (simp add: double_def)

lemma double_1: "double 1 = 1"
  using double_eqI [of "- 52" 1 "2 ^ 52"] by simp

lemma double_2: "double 2 = 2"
  using double_eqI [of "- 51" 2 "2 ^ 52"] by simp

lemma threshold_literal: "SPEECH_THRESHOLD = double (1 / 100)"
  using double_eqI [of "- 59" "1 / 100" 5764607523034235]
  by (simp add: SPEECH_THRESHOLD_def)


lemma double_sqrt_eqI:
  assumes "(2 powi (k + 52))\<^sup>2 \<le> q" and "q < (2 powi (k + 53))\<^sup>2" and "- 1074 \<le> k"
    and "1 \<le> m"
    and "((of_int m - 1 / 2) * 2 powi k)\<^sup>2 < q" and "q < ((of_int m + 1 / 2) * 2 powi k)\<^sup>2"
  shows "double (sqrt q) = of_int m * 2 powi k"
proof -
  have p: "(0::real) < 2 powi k" by simp
  have lo: "2 powi (k + 52) \<le> sqrt q"
    using assms(1) by (rule real_le_rsqrt)
  have hi: "sqrt q < 2 powi (k + 53)"
    using assms(2) by (intro real_less_lsqrt) simp_all
  have a: "(of_int m - 1 / 2) * 2 powi k < sqrt q"
    using assms(5) by (rule real_less_rsqrt)
  have "0 \<le> (of_int m + 1 / 2) * (2::real) powi k"
    using assms(4) p by simp
  then have b: "sqrt q < (of_int m + 1 / 2) * 2 powi k"
    using assms(6) by (intro real_less_lsqrt) simp_all
  have "\<bar>sqrt q - of_int m * 2 powi k\<bar> < 2 powi k / 2"
    unfolding abs_less_iff using a b by (simp add: algebra_simps)
  moreover have "\<bar>sqrt q\<bar> = sqrt q"
    using lo p by (smt (verit) zero_less_power_int)
  ultimately show ?thesis
    using lo hi assms(3) by (intro double_eqI) simp_all
qed

text \<open>
  The handler's arithmetic on \<open>frameA\<close>, step by step: the squares and the first sum
  are exact, the second sum and the quotient are rounded, and the square root rounds to
  the threshold itself. In exact arithmetic the RMS of this frame is above \<open>1/100\<close>.
\<close>

lemma frameA_sq0: "double (123551472467641 / 1152921504606846976) = 123551472467641 / 1152921504606846976"
  using double_eqI [of "- 66" "123551472467641 / 1152921504606846976" "7907294237929024"] by simp

lemma frameA_sq1: "double (55581244610089 / 288230376151711744) = 55581244610089 / 288230376151711744"
  using double_eqI [of "- 65" "55581244610089 / 288230376151711744" "7114399310091392"] by simp

lemma frameA_add1: "double (345876450907997 / 1152921504606846976) = 345876450907997 / 1152921504606846976"
  using double_eqI [of "- 64" "345876450907997 / 1152921504606846976" "5534023214527952"] by simp

lemma frameA_sq2: "double (1988339707225 / 4835703278458516698824704) = 1988339707225 / 4835703278458516698824704"
  using double_eqI [of "- 94" "1988339707225 / 4835703278458516698824704" "8144239440793600"] by simp

lemma frameA_add2: "double (1450710983537555156313 / 4835703278458516698824704) = 2767011611056433 / 9223372036854775808"
  using double_eqI [of "- 64" "1450710983537555156313 / 4835703278458516698824704" "5534023222112866"] by simp

lemma frameA_div: "double (2767011611056433 / 27670116110564327424) = 7378697629483821 / 73786976294838206464"
  using double_eqI [of "- 66" "2767011611056433 / 27670116110564327424" "7378697629483821"] by simp

lemma frameA_sqrt: "double (sqrt (7378697629483821 / 73786976294838206464)) = 5764607523034235 / 576460752303423488"
  using double_sqrt_eqI [of "- 59" "7378697629483821 / 73786976294838206464" "5764607523034235"]
  by (simp add: power2_eq_square)

lemma rms_frameA: "rms frameA = SPEECH_THRESHOLD"
  by (simp add: frameA_def rms_def sum_squares_def SPEECH_THRESHOLD_def double_0
      frameA_sq0 frameA_sq1 frameA_add1 frameA_sq2 frameA_add2 frameA_div frameA_sqrt)

lemma exact_frameA: "1 / 100 < sqrt (sum_list (map (\<lambda>x. x * x) frameA) / real (length frameA))"
  by (rule real_less_rsqrt) (simp add: frameA_def power2_eq_square)




































lemma exact_frameB:
  "sqrt (sum_list (map (\<lambda>x. x * x) frameB) / real (length frameB)) < 1 / 100"
  by (rule real_less_lsqrt) (simp_all add: frameB_def power2_eq_square)

subsection \<open>The session used in the examples\<close>

lemma rms_loud: "rms [1, - 1] = 1"
  by (simp add: rms_def sum_squares_def double_0 double_1 double_2)

lemma rms_quiet: "rms [0, 0] = 0"
  by (simp add: rms_def sum_squares_def double_0)

lemma connected_session_fields:
  "isSpeaking connected_session = False"
  "isRecording connected_session"
  "isConnected connected_session"
  "processorRef connected_session = Some 5"
  "sourceRef connected_session = Some 4"
  "audioContextRef connected_session = Some 3"
  "onaudioprocess connected_session 5 = Some \<lparr>closure_ws = 2, closure_isSpeaking = False\<rparr>"
  "5 \<in> connected_nodes connected_session"
  "socket_state connected_session 2 = Some OPEN"
  "socket_handlers connected_session 2 = Some \<lparr>closure_stream = 1, render_isSpeaking = False\<rparr>"
  "silenceTimeoutRef connected_session = None"
  "timers connected_session = []"
  "sent connected_session = []"
  "streamRef connected_session = Some 1"
  "wsRef connected_session = Some 2"
  "live_streams connected_session = {1}"
  "3 \<in> open_contexts connected_session"
  "4 \<in> connected_nodes connected_session"
  by (simp_all add: connected_session_def connecting_session_def connect_def connect_try_def
      initial_deepgram_def valid_protocols_def token_char_def Let_def ws_onopen_def
      set_readyState_def startRecording_def)

lemma connecting_session_fields:
  "fst (connect (Some ''abc123'') MediaGranted initial_deepgram) = Return ()"
  "isSpeaking connecting_session = False"
  "isRecording connecting_session = False"
  "isConnected connecting_session = False"
  "processorRef connecting_session = None"
  "sourceRef connecting_session = None"
  "audioContextRef connecting_session = None"
  "silenceTimeoutRef connecting_session = None"
  "streamRef connecting_session = Some 1"
  "wsRef connecting_session = Some 2"
  "socket_state connecting_session 2 = Some CONNECTING"
  "socket_handlers connecting_session 2 = Some \<lparr>closure_stream = 1, render_isSpeaking = False\<rparr>"
  "live_streams connecting_session = {1}"
  "toasts connecting_session = []"
  by (simp_all add: connecting_session_def connect_def connect_try_def initial_deepgram_def
      valid_protocols_def token_char_def Let_def)

lemma closed_session_fields:
  "socket_state closed_session 2 = Some CLOSED"
  "onaudioprocess closed_session 5 = Some \<lparr>closure_ws = 2, closure_isSpeaking = False\<rparr>"
  "5 \<in> connected_nodes closed_session"
  "streamRef closed_session = Some 1"
  "live_streams closed_session = {1}"
  "\<not> isRecording closed_session"
  by (simp_all add: closed_session_def connected_session_fields set_readyState_def
      ws_onclose_def)

subsection \<open>PCM conversion\<close>








subsection \<open>The audio-processing handler\<close>

lemma vad_branch_speech:
  "sent (vad_branch True cl f st)
     = sent st @ [(closure_ws cl, buffer_of (map float_to_pcm f))]"
  by (simp add: vad_branch_def Let_def ws_send_def clearTimeout_def split: option.split)

lemma vad_branch_silence: "sent (vad_branch False cl f st) = sent st"
  by (simp add: vad_branch_def setTimeout_def)

lemma audioprocess_loud:
  "SPEECH_THRESHOLD < rms f \<Longrightarrow> socket_state st (closure_ws cl) = Some OPEN \<Longrightarrow>
   sent (audioprocess cl f st) = sent st @ [(closure_ws cl, buffer_of (map float_to_pcm f))]"
  by (simp add: audioprocess_def vad_branch_speech)

lemma audioprocess_not_open:
  "socket_state st (closure_ws cl) \<noteq> Some OPEN \<Longrightarrow> audioprocess cl f st = st"
  by (simp add: audioprocess_def)

lemma audioprocess_quiet:
  "rms f \<le> SPEECH_THRESHOLD \<Longrightarrow> sent (audioprocess cl f st) = sent st"
  by (simp add: audioprocess_def vad_branch_silence)




text \<open>
  C6. For every audio frame whose RMS, as the handler computes it in double
  arithmetic, is less than or equal to the speech threshold, no bytes are sent on the
  streaming connection, whatever the speaking state, the closure and the state of the
  socket: the log of sent buffers is unchanged by the handler, by its silence branch
  whenever its comparison has come out false, and by the browser's delivery of the
  frame to any processor node.
\<close>

theorem quiet_frame_not_sent:
  assumes "rms inputData \<le> SPEECH_THRESHOLD"
  shows "sent (audioprocess cl inputData st) = sent st
       \<and> sent (vad_branch False cl inputData st) = sent st
       \<and> sent (step (AudioFrame p inputData) st) = sent st"
  using assms by (simp add: audioprocess_quiet vad_branch_silence split: option.split)

theorem quiet_frame_not_sent_witness:
  "rms [0, 0] \<le> SPEECH_THRESHOLD
   \<and> sent (step (AudioFrame 5 [0, 0]) connected_session) = sent connected_session
   \<and> rms frameA \<le> SPEECH_THRESHOLD
   \<and> sent (step (AudioFrame 5 frameA) connected_session) = sent connected_session"
  using quiet_frame_not_sent [of "[0, 0]" "\<lparr>closure_ws = 2, closure_isSpeaking = False\<rparr>"
          connected_session 5]
    quiet_frame_not_sent [of frameA "\<lparr>closure_ws = 2, closure_isSpeaking = False\<rparr>"
          connected_session 5] rms_frameA
  by (simp add: rms_quiet SPEECH_THRESHOLD_def)

text \<open>
  C10. For every audio frame delivered while the socket the handler was given is not
  in the \<open>OPEN\<close> state, the frame is dropped entirely: the whole state is unchanged,
  so nothing is sent or buffered and neither the speaking flag nor the silence timer is
  touched. Conversely, whenever the handler sends something the socket is open.
\<close>

theorem closed_socket_drops_frame:
  "(socket_state st (closure_ws cl) \<noteq> Some OPEN \<longrightarrow>
      audioprocess cl inputData st = st
      \<and> (onaudioprocess st p = Some cl \<longrightarrow> step (AudioFrame p inputData) st = st))
   \<and> (sent (audioprocess cl inputData st) \<noteq> sent st \<longrightarrow>
        socket_state st (closure_ws cl) = Some OPEN)"
  using audioprocess_not_open [of st cl inputData]
  by (cases "socket_state st (closure_ws cl) = Some OPEN") auto

theorem closed_socket_drops_frame_witness:
  "socket_state closed_session 2 \<noteq> Some OPEN
   \<and> step (AudioFrame 5 [1, - 1]) closed_session = closed_session
   \<and> sent (audioprocess \<lparr>closure_ws = 2, closure_isSpeaking = False\<rparr> [1, - 1] connected_session)
       \<noteq> sent connected_session
   \<and> socket_state connected_session 2 = Some OPEN"
proof -
  have a: "sent (audioprocess \<lparr>closure_ws = 2, closure_isSpeaking = False\<rparr> [1, - 1]
                   connected_session) \<noteq> sent connected_session"
    by (simp add: audioprocess_loud rms_loud SPEECH_THRESHOLD_def connected_session_fields)
  show ?thesis
    using a
      closed_socket_drops_frame [of closed_session
        "\<lparr>closure_ws = 2, closure_isSpeaking = False\<rparr>" "[1, - 1]" 5]
      closed_socket_drops_frame [of connected_session
        "\<lparr>closure_ws = 2, closure_isSpeaking = False\<rparr>" "[1, - 1]" 5]
    by (simp add: closed_session_fields connected_session_fields)
qed

subsection \<open>The silence timer\<close>

text \<open>
  A speech frame on an open socket marks the state speaking and clears the pending
  timer. A quiet frame starts a timer of 800 ms only when the handler's closure holds
  \<open>isSpeaking = true\<close>; the flag in the state plays no part.
\<close>

lemma audioprocess_loud_state:
  assumes "SPEECH_THRESHOLD < rms f" and "socket_state st (closure_ws cl) = Some OPEN"
  shows "isSpeaking (audioprocess cl f st) \<and> silenceTimeoutRef (audioprocess cl f st) = None
       \<and> (case silenceTimeoutRef st of
             None \<Rightarrow> timers (audioprocess cl f st) = timers st
           | Some h \<Rightarrow> \<not> timer_pending (audioprocess cl f st) h)"
  using assms
  by (auto simp add: audioprocess_def vad_branch_def Let_def ws_send_def clearTimeout_def timer_pending_def
      split: option.split)

lemma audioprocess_quiet_starts_timer:
  assumes "rms f \<le> SPEECH_THRESHOLD" and "socket_state st (closure_ws cl) = Some OPEN"
    and "closure_isSpeaking cl" and "silenceTimeoutRef st = None"
  shows "silenceTimeoutRef (audioprocess cl f st) = Some (next_id st)
       \<and> timers (audioprocess cl f st) = timers st @ [(next_id st, clock st + 800)]
       \<and> isSpeaking (audioprocess cl f st) = isSpeaking st"
  using assms
  by (simp add: audioprocess_def vad_branch_def setTimeout_def SILENCE_DURATION_def)

lemma audioprocess_stale_quiet:
  "\<not> closure_isSpeaking cl \<Longrightarrow> rms f \<le> SPEECH_THRESHOLD \<Longrightarrow> audioprocess cl f st = st"
  by (simp add: audioprocess_def vad_branch_def)

lemma audioprocess_keeps_speaking:
  "isSpeaking st \<Longrightarrow> isSpeaking (audioprocess cl f st)"
  by (simp add: audioprocess_def vad_branch_def Let_def ws_send_def setTimeout_def
      split: option.split prod.split)

lemma audioprocess_keeps_closures:
  "onaudioprocess (audioprocess cl f st) = onaudioprocess st"
  by (simp add: audioprocess_def vad_branch_def Let_def ws_send_def setTimeout_def clearTimeout_def
      split: option.split prod.split)

lemma audioprocess_stale_timers:
  "\<not> closure_isSpeaking cl \<Longrightarrow> timers st = [] \<Longrightarrow> timers (audioprocess cl f st) = []"
  by (simp add: audioprocess_def vad_branch_def Let_def ws_send_def clearTimeout_def split: option.split)

lemma fire_timers_none: "timers st = [] \<Longrightarrow> fire_timers st = st"
  by (simp add: fire_timers_def)

lemma stale_step:
  assumes "\<forall>p cl. onaudioprocess st p = Some cl \<longrightarrow> \<not> closure_isSpeaking cl"
    and "timers st = []" and "isSpeaking st" and "audio_event e"
  shows "onaudioprocess (step e st) = onaudioprocess st \<and> timers (step e st) = []
       \<and> isSpeaking (step e st)"
proof (cases e)
  case (AudioFrame p f)
  then show ?thesis
    using assms
    by (auto simp add: audioprocess_keeps_closures audioprocess_stale_timers
        audioprocess_keeps_speaking split: option.split)
next
  case (Elapse ms)
  then show ?thesis
    using assms by (simp add: fire_timers_none)
qed (use assms in simp_all)

text \<open>
  When every installed handler was created in a render with \<open>isSpeaking = false\<close>, as
  in any session started from a state that is not speaking, no sequence of frames and
  no passage of time ends the speaking state.
\<close>

lemma stale_closure_never_times_out:
  assumes "\<forall>p cl. onaudioprocess st p = Some cl \<longrightarrow> \<not> closure_isSpeaking cl"
    and "timers st = []" and "isSpeaking st" and "list_all audio_event evs"
  shows "isSpeaking (run evs st)"
  using assms
proof (induction evs arbitrary: st)
  case Nil
  then show ?case by (simp add: run_def)
next
  case (Cons e evs)
  from Cons.prems have e: "audio_event e" and rest: "list_all audio_event evs" by simp_all
  from stale_step [OF Cons.prems(1) Cons.prems(2) Cons.prems(3) e]
  have "onaudioprocess (step e st) = onaudioprocess st" "timers (step e st) = []"
    "isSpeaking (step e st)" by simp_all
  with Cons.prems(1) rest have "isSpeaking (run evs (step e st))"
    by (intro Cons.IH) simp_all
  then show ?case by (simp add: run_def)
qed

text \<open>
  C2. The property: when the state is speaking and a frame below the threshold
  arrives, a one-shot timer of 800 ms is started, and when it elapses with no speech
  frame in between the state becomes not speaking. In a session started from the
  initial state the handler's closure holds the \<open>isSpeaking = false\<close> of the render
  in which \<open>connect\<close> was called. After a speech frame the state is speaking; the
  quiet frame that follows starts no timer (the ref stays \<open>null\<close> and no timeout is
  pending), and after 800 ms of silence the state is still speaking.
\<close>

theorem silence_timer_not_started:
  "isSpeaking (run [AudioFrame 5 [1, - 1]] connected_session)
   \<and> rms [0, 0] \<le> SPEECH_THRESHOLD
   \<and> silenceTimeoutRef (run [AudioFrame 5 [1, - 1], AudioFrame 5 [0, 0]] connected_session)
       = None
   \<and> timers (run [AudioFrame 5 [1, - 1], AudioFrame 5 [0, 0]] connected_session) = []
   \<and> isSpeaking
       (run [AudioFrame 5 [1, - 1], AudioFrame 5 [0, 0], Elapse 800] connected_session)"
  by (simp add: run_def connected_session_fields audioprocess_def vad_branch_def rms_loud rms_quiet
        SPEECH_THRESHOLD_def ws_send_def Let_def fire_timers_def)

subsection \<open>disconnect\<close>

lemmas release_defs = release_timer_def release_processor_def release_source_def
  release_context_def release_stream_def release_socket_def clearTimeout_def ws_close_def

lemma release_timer_refs [simp]:
  "silenceTimeoutRef (release_timer st) = None"
  "processorRef (release_timer st) = processorRef st"
  "sourceRef (release_timer st) = sourceRef st"
  "audioContextRef (release_timer st) = audioContextRef st"
  "streamRef (release_timer st) = streamRef st"
  "wsRef (release_timer st) = wsRef st"
  by (simp_all add: release_defs split: option.split)

lemma release_processor_refs [simp]:
  "silenceTimeoutRef (release_processor st) = silenceTimeoutRef st"
  "processorRef (release_processor st) = None"
  "sourceRef (release_processor st) = sourceRef st"
  "audioContextRef (release_processor st) = audioContextRef st"
  "streamRef (release_processor st) = streamRef st"
  "wsRef (release_processor st) = wsRef st"
  by (simp_all add: release_defs split: option.split)

lemma release_source_refs [simp]:
  "silenceTimeoutRef (release_source st) = silenceTimeoutRef st"
  "processorRef (release_source st) = processorRef st"
  "sourceRef (release_source st) = None"
  "audioContextRef (release_source st) = audioContextRef st"
  "streamRef (release_source st) = streamRef st"
  "wsRef (release_source st) = wsRef st"
  by (simp_all add: release_defs split: option.split)

lemma release_context_refs [simp]:
  "silenceTimeoutRef (release_context st) = silenceTimeoutRef st"
  "processorRef (release_context st) = processorRef st"
  "sourceRef (release_context st) = sourceRef st"
  "audioContextRef (release_context st) = None"
  "streamRef (release_context st) = streamRef st"
  "wsRef (release_context st) = wsRef st"
  by (simp_all add: release_defs split: option.split)

lemma release_stream_refs [simp]:
  "silenceTimeoutRef (release_stream st) = silenceTimeoutRef st"
  "processorRef (release_stream st) = processorRef st"
  "sourceRef (release_stream st) = sourceRef st"
  "audioContextRef (release_stream st) = audioContextRef st"
  "streamRef (release_stream st) = None"
  "wsRef (release_stream st) = wsRef st"
  by (simp_all add: release_defs split: option.split)

lemma release_socket_refs [simp]:
  "silenceTimeoutRef (release_socket st) = silenceTimeoutRef st"
  "processorRef (release_socket st) = processorRef st"
  "sourceRef (release_socket st) = sourceRef st"
  "audioContextRef (release_socket st) = audioContextRef st"
  "streamRef (release_socket st) = streamRef st"
  "wsRef (release_socket st) = None"
  by (simp_all add: release_defs split: option.split)

lemma release_noop:
  "silenceTimeoutRef st = None \<Longrightarrow> release_timer st = st"
  "processorRef st = None \<Longrightarrow> release_processor st = st"
  "sourceRef st = None \<Longrightarrow> release_source st = st"
  "audioContextRef st = None \<Longrightarrow> release_context st = st"
  "streamRef st = None \<Longrightarrow> release_stream st = st"
  "wsRef st = None \<Longrightarrow> release_socket st = st"
  by (simp_all add: release_defs)

lemma release_timers [simp]:
  "timers (release_processor st) = timers st"
  "timers (release_source st) = timers st"
  "timers (release_context st) = timers st"
  "timers (release_stream st) = timers st"
  "timers (release_socket st) = timers st"
  by (simp_all add: release_defs split: option.split)

lemma release_nodes [simp]:
  "connected_nodes (release_timer st) = connected_nodes st"
  "connected_nodes (release_context st) = connected_nodes st"
  "connected_nodes (release_stream st) = connected_nodes st"
  "connected_nodes (release_socket st) = connected_nodes st"
  by (simp_all add: release_defs split: option.split)

lemma release_contexts [simp]:
  "open_contexts (release_timer st) = open_contexts st"
  "open_contexts (release_processor st) = open_contexts st"
  "open_contexts (release_source st) = open_contexts st"
  "open_contexts (release_stream st) = open_contexts st"
  "open_contexts (release_socket st) = open_contexts st"
  by (simp_all add: release_defs split: option.split)

lemma release_streams [simp]:
  "live_streams (release_timer st) = live_streams st"
  "live_streams (release_processor st) = live_streams st"
  "live_streams (release_source st) = live_streams st"
  "live_streams (release_context st) = live_streams st"
  "live_streams (release_socket st) = live_streams st"
  by (simp_all add: release_defs split: option.split)

lemma release_toasts [simp]:
  "toasts (release_timer st) = toasts st"
  "toasts (release_processor st) = toasts st"
  "toasts (release_source st) = toasts st"
  "toasts (release_context st) = toasts st"
  "toasts (release_stream st) = toasts st"
  "toasts (release_socket st) = toasts st"
  by (simp_all add: release_defs split: option.split)

lemma idle_disconnect: "idle (disconnect st)"
  by (simp add: idle_def disconnect_def Let_def)

lemma disconnect_of_idle: "idle st \<Longrightarrow> disconnect st = st"
  by (simp add: idle_def disconnect_def Let_def release_noop)

lemma toasts_disconnect: "toasts (disconnect st) = toasts st"
  by (simp add: disconnect_def Let_def)

lemma disconnect_clears_timer:
  "silenceTimeoutRef st = Some h \<Longrightarrow> \<not> timer_pending (disconnect st) h"
  by (auto simp add: disconnect_def Let_def timer_pending_def release_timer_def
      clearTimeout_def)

lemma disconnect_detaches_processor:
  "processorRef st = Some p \<Longrightarrow> p \<notin> connected_nodes (disconnect st)"
  by (auto simp add: disconnect_def Let_def release_processor_def release_source_def
      split: option.split)

lemma disconnect_detaches_source:
  "sourceRef st = Some p \<Longrightarrow> p \<notin> connected_nodes (disconnect st)"
  by (auto simp add: disconnect_def Let_def release_processor_def release_source_def
      split: option.split)

lemma disconnect_closes_context:
  "audioContextRef st = Some c \<Longrightarrow> c \<notin> open_contexts (disconnect st)"
  by (auto simp add: disconnect_def Let_def release_context_def split: option.split)

lemma disconnect_stops_stream:
  "streamRef st = Some s \<Longrightarrow> s \<notin> live_streams (disconnect st)"
  by (auto simp add: disconnect_def Let_def release_stream_def split: option.split)

lemma disconnect_closes_socket:
  "wsRef st = Some ws \<Longrightarrow> \<not> socket_active (disconnect st) ws"
  by (auto simp add: disconnect_def Let_def release_socket_def ws_close_def socket_active_def
      split: option.split)

text \<open>
  C9. \<open>disconnect\<close> is unconditional and idempotent. From every state, whichever of
  the timer, processor, source node, audio context, microphone stream and socket are
  held, it ends in the idle state (not connected, not recording, not speaking, every
  ref \<open>null\<close>); each resource that was held is released (the timeout is no longer
  pending, the nodes are out of the graph, the context is closed, the stream's tracks
  are stopped, the socket is neither connecting nor open); and calling it twice in a
  row gives the same state as calling it once.
\<close>

theorem disconnect_idempotent:
  "idle (disconnect st)
   \<and> disconnect (disconnect st) = disconnect st
   \<and> (case silenceTimeoutRef st of
         None \<Rightarrow> True | Some h \<Rightarrow> \<not> timer_pending (disconnect st) h)
   \<and> (case processorRef st of
         None \<Rightarrow> True | Some p \<Rightarrow> p \<notin> connected_nodes (disconnect st))
   \<and> (case sourceRef st of
         None \<Rightarrow> True | Some s \<Rightarrow> s \<notin> connected_nodes (disconnect st))
   \<and> (case audioContextRef st of
         None \<Rightarrow> True | Some c \<Rightarrow> c \<notin> open_contexts (disconnect st))
   \<and> (case streamRef st of
         None \<Rightarrow> True | Some s \<Rightarrow> s \<notin> live_streams (disconnect st))
   \<and> (case wsRef st of
         None \<Rightarrow> True | Some ws \<Rightarrow> \<not> socket_active (disconnect st) ws)"
proof -
  have "disconnect (disconnect st) = disconnect st"
    by (rule disconnect_of_idle [OF idle_disconnect])
  then show ?thesis
    by (simp add: idle_disconnect disconnect_clears_timer disconnect_detaches_processor
        disconnect_detaches_source disconnect_closes_context disconnect_stops_stream
        disconnect_closes_socket split: option.split)
qed

theorem disconnect_idempotent_witness:
  "idle (disconnect connected_session)
   \<and> disconnect (disconnect connected_session) = disconnect connected_session
   \<and> 5 \<notin> connected_nodes (disconnect connected_session)
   \<and> 4 \<notin> connected_nodes (disconnect connected_session)
   \<and> 3 \<notin> open_contexts (disconnect connected_session)
   \<and> 1 \<notin> live_streams (disconnect connected_session)
   \<and> \<not> socket_active (disconnect connected_session) 2
   \<and> idle (disconnect connecting_session)
   \<and> disconnect (disconnect connecting_session) = disconnect connecting_session
   \<and> 1 \<notin> live_streams (disconnect connecting_session)
   \<and> \<not> socket_active (disconnect connecting_session) 2"
  using disconnect_idempotent [of connected_session]
    disconnect_idempotent [of connecting_session]
  by (simp add: connected_session_fields connecting_session_fields)

subsection \<open>connect\<close>

text \<open>
  The two failures the hook handles by name. A rejected \<open>getUserMedia\<close> (and a missing
  key) only adds toasts and rethrows: nothing was acquired. An \<open>error\<close> event on the
  socket toasts and calls \<open>disconnect\<close>, which leaves the idle state.
\<close>

lemma connect_microphone_rejected:
  "k \<noteq> [] \<Longrightarrow> connect (Some k) MediaRejected st = (Throw, toast ''Microphone Error'' st)"
  by (simp add: connect_def connect_try_def)

lemma connect_missing_key:
  "connect None media st
     = (Throw, toast ''Microphone Error'' (toast ''Configuration Error'' st))"
  "connect (Some []) media st
     = (Throw, toast ''Microphone Error'' (toast ''Configuration Error'' st))"
  by (simp_all add: connect_def connect_try_def)

lemma idle_toast: "idle (toast title st) = idle st"
  by (simp add: idle_def toast_def)

lemma socket_error_leaves_idle:
  assumes "socket_handlers st ws = Some cl"
  shows "idle (ws_onerror ws st)
       \<and> toasts (ws_onerror ws st) = toasts st @ [''Connection Error'']
       \<and> (case streamRef st of
             None \<Rightarrow> True | Some s \<Rightarrow> s \<notin> live_streams (ws_onerror ws st))
       \<and> (case wsRef st of
             None \<Rightarrow> True | Some w \<Rightarrow> \<not> socket_active (ws_onerror ws st) w)"
proof -
  have e: "ws_onerror ws st = disconnect (toast ''Connection Error'' st)"
    using assms by (simp add: ws_onerror_def)
  have s: "streamRef (toast ''Connection Error'' st) = streamRef st"
    and w: "wsRef (toast ''Connection Error'' st) = wsRef st"
    by (simp_all add: toast_def)
  show ?thesis
    unfolding e
    using disconnect_stops_stream [of "toast ''Connection Error'' st"]
      disconnect_closes_socket [of "toast ''Connection Error'' st"]
    by (simp add: idle_disconnect toasts_disconnect s w toast_def split: option.split)
qed

lemma socket_failure_while_connecting:
  "idle (step (SocketFails 2) connecting_session)"
  "live_streams (step (SocketFails 2) connecting_session) = {}"
  "socket_state (step (SocketFails 2) connecting_session) 2 = Some CLOSED"
  "toasts (step (SocketFails 2) connecting_session) = [''Connection Error'']"
  by (simp_all add: connecting_session_def connect_def connect_try_def initial_deepgram_def
      valid_protocols_def token_char_def Let_def set_readyState_def disconnect_def idle_def
      release_defs ws_onerror_def ws_onclose_def toast_def)

text \<open>
  Whenever the key is present but makes the list of subprotocols invalid, a granted
  microphone is kept: \<open>connect\<close> throws, and the new stream is in \<open>streamRef\<close> with
  its tracks live.
\<close>

lemma connect_invalid_key_keeps_stream:
  assumes "k \<noteq> []" and "\<not> valid_protocols [''token'', k]"
  shows "fst (connect (Some k) MediaGranted st) = Throw
       \<and> streamRef (snd (connect (Some k) MediaGranted st)) = Some (next_id st)
       \<and> next_id st \<in> live_streams (snd (connect (Some k) MediaGranted st))
       \<and> wsRef (snd (connect (Some k) MediaGranted st)) = wsRef st"
  using assms by (simp add: connect_def connect_try_def Let_def toast_def)

text \<open>
  C3. The property: every failing \<open>connect\<close> leaves a clean disconnected state with no
  partially acquired resource still held. When the key is not a valid subprotocol token
  (here it ends with a space), \<open>getUserMedia\<close> has resolved and the stream is stored in
  \<open>streamRef\<close> before \<open>new WebSocket\<close> throws; the \<open>catch\<close> toasts and rethrows, so
  \<open>connect\<close> fails while the ref still holds the stream and its tracks are live.
\<close>

theorem connect_failure_keeps_stream:
  "fst (connect (Some ''abc123 '') MediaGranted initial_deepgram) = Throw
   \<and> streamRef (snd (connect (Some ''abc123 '') MediaGranted initial_deepgram)) = Some 1
   \<and> 1 \<in> live_streams (snd (connect (Some ''abc123 '') MediaGranted initial_deepgram))
   \<and> \<not> idle (snd (connect (Some ''abc123 '') MediaGranted initial_deepgram))
   \<and> toasts (snd (connect (Some ''abc123 '') MediaGranted initial_deepgram))
       = [''Microphone Error'']"
  by (simp add: connect_def connect_try_def initial_deepgram_def valid_protocols_def Let_def
        toast_def idle_def token_char_def)

end
